theory Spec2Isabelle
  imports Complex_Main "HOL-Library.AList"
begin

section \<open>Book statistics: word counts, word frequencies, token counts and cost\<close>

text \<open>
  A shallow embedding of \<^verbatim>\<open>src/book_summarizer/book_analyzer.py\<close> (class
  \<^verbatim>\<open>BookAnalyzer\<close>) and of its legacy variant \<^verbatim>\<open>src/book_analyzer.py\<close> (class
  \<^verbatim>\<open>EpubWordAnalyzer\<close>).

  The modules the analyzers import are not part of the sources at hand: the chapter
  extractor, the word tokenizer (nltk), the model clients with their names, and the cost
  calculator with its encoder and price table. They appear as the fields of a record of
  collaborators, so every definition below is parametric in them. An exception raised by a
  collaborator is a value \<open>Inl e\<close>; Python's floats are idealised as real numbers.
\<close>

subsection \<open>Data model\<close>

datatype error = FileNotFoundError | EncodingError | KeyError | IndexError

datatype llm_client = GPT4oMini | GPT4O

record collaborators =
  get_chapters :: "string \<Rightarrow> error + string list"
  word_tokenize :: "string \<Rightarrow> string list"
  model_name :: "llm_client \<Rightarrow> string"
  price_per_1000 :: "llm_client \<Rightarrow> real"
  encode :: "llm_client \<Rightarrow> string \<Rightarrow> error + nat list"
  splitext_root :: "string \<Rightarrow> string"
  format_2f :: "real \<Rightarrow> string"

record book_analyzer =
  epub_path :: string
  chapters :: "string list"
  tokenized_chapters :: "string list list"

text \<open>\<^verbatim>\<open>BookAnalyzer.__init__\<close>: extract the chapters, tokenize each of them.\<close>

definition BookAnalyzer :: "collaborators \<Rightarrow> string \<Rightarrow> error + book_analyzer" where
  "BookAnalyzer c path =
     (case get_chapters c path of
        Inl e \<Rightarrow> Inl e
      | Inr chs \<Rightarrow>
          Inr \<lparr>epub_path = path, chapters = chs,
               tokenized_chapters = map (word_tokenize c) chs\<rparr>)"

text \<open>\<^verbatim>\<open>_default_save_path\<close>: \<^verbatim>\<open>os.path.splitext(self.epub_path)[0] + "_stats.md"\<close>.\<close>

definition default_save_path :: "collaborators \<Rightarrow> book_analyzer \<Rightarrow> string" where
  "default_save_path c a = splitext_root c (epub_path a) @ ''_stats.md''"

subsection \<open>Python built-ins used by the analyzers\<close>

text \<open>\<^verbatim>\<open>sep.join(xs)\<close> for a list of strings.\<close>

fun join :: "string \<Rightarrow> string list \<Rightarrow> string" where
  "join sep [] = []"
| "join sep [x] = x"
| "join sep (x # y # ys) = x @ sep @ join sep (y # ys)"

text \<open>
  \<^verbatim>\<open>Counter(tokens)\<close>: one pass over the tokens, \<^verbatim>\<open>d[t] = d.get(t, 0) + 1\<close>. A Python
  dictionary keeps its keys in insertion order and assigning to a present key keeps the
  key's position, which is what \<^const>\<open>AList.update\<close> does on an association list.
\<close>

definition count_element :: "'k \<Rightarrow> ('k \<times> nat) list \<Rightarrow> ('k \<times> nat) list" where
  "count_element t d =
     AList.update t ((case map_of d t of None \<Rightarrow> 0 | Some n \<Rightarrow> n) + 1) d"

definition Counter :: "'k list \<Rightarrow> ('k \<times> nat) list" where
  "Counter tokens = fold count_element tokens []"

text \<open>
  \<^verbatim>\<open>Counter.most_common()\<close> is \<^verbatim>\<open>sorted(self.items(), key=itemgetter(1), reverse=True)\<close>.
  Python's sort is stable, and with \<^verbatim>\<open>reverse=True\<close> it reverses the list, sorts it
  ascending and stably, and reverses the result, so that equal keys keep their order.
  \<^const>\<open>sort_key\<close> is a stable insertion sort.
\<close>

definition most_common :: "('k \<times> nat) list \<Rightarrow> ('k \<times> nat) list" where
  "most_common items = rev (sort_key snd (rev items))"

text \<open>\<^verbatim>\<open>dict(pairs)\<close>: insert the pairs from left to right.\<close>

definition dict :: "('k \<times> 'v) list \<Rightarrow> ('k \<times> 'v) list" where
  "dict pairs = fold (\<lambda>(k, v) d. AList.update k v d) pairs []"

subsection \<open>Word counts and word frequencies\<close>

definition word_counts :: "book_analyzer \<Rightarrow> nat \<times> nat list" where
  "word_counts a =
     (let total_word_count = sum_list (map length (tokenized_chapters a));
          chapter_word_counts = map length (tokenized_chapters a)
      in (total_word_count, chapter_word_counts))"

definition word_frequencies :: "book_analyzer \<Rightarrow> (string \<times> nat) list" where
  "word_frequencies a =
     (let all_tokens = concat (tokenized_chapters a);
          frequency = Counter all_tokens
      in dict (most_common frequency))"

text \<open>
  The position of the first occurrence of a token in the flattened token stream (the
  length of the stream when the token does not occur).
\<close>

definition first_index :: "'a list \<Rightarrow> 'a \<Rightarrow> nat" where
  "first_index xs w = length (takeWhile (\<lambda>x. x \<noteq> w) xs)"

subsection \<open>Token counts\<close>

text \<open>
  \<^verbatim>\<open>len(calculator.encoding.encode(chapter)) for chapter in self.chapters\<close>: the chapters'
  raw texts are encoded one by one, and the first exception ends the pass.
\<close>

fun encoded_lengths :: "(string \<Rightarrow> error + nat list) \<Rightarrow> string list \<Rightarrow> error + nat list" where
  "encoded_lengths enc [] = Inr []"
| "encoded_lengths enc (chapter # rest) =
     (case enc chapter of
        Inl e \<Rightarrow> Inl e
      | Inr toks \<Rightarrow>
          (case encoded_lengths enc rest of
             Inl e \<Rightarrow> Inl e
           | Inr ns \<Rightarrow> Inr (length toks # ns)))"

text \<open>
  The body of the loop over the models: one pass over the chapters for the total, a second
  pass for the list of the chapters' counts.
\<close>

definition model_token_counts ::
  "collaborators \<Rightarrow> book_analyzer \<Rightarrow> llm_client \<Rightarrow> error + nat \<times> nat list" where
  "model_token_counts c a model =
     (case encoded_lengths (encode c model) (chapters a) of
        Inl e \<Rightarrow> Inl e
      | Inr ns \<Rightarrow>
          (let total_token_count = sum_list ns in
           case encoded_lengths (encode c model) (chapters a) of
             Inl e \<Rightarrow> Inl e
           | Inr chapter_token_counts \<Rightarrow> Inr (total_token_count, chapter_token_counts)))"

fun token_counts_loop ::
  "collaborators \<Rightarrow> book_analyzer \<Rightarrow> llm_client list \<Rightarrow> (string \<times> nat \<times> nat list) list
     \<Rightarrow> error + (string \<times> nat \<times> nat list) list" where
  "token_counts_loop c a [] tcs = Inr tcs"
| "token_counts_loop c a (model # models) tcs =
     (case model_token_counts c a model of
        Inl e \<Rightarrow> Inl e
      | Inr entry \<Rightarrow>
          token_counts_loop c a models (AList.update (model_name c model) entry tcs))"

definition token_counts ::
  "collaborators \<Rightarrow> book_analyzer \<Rightarrow> error + (string \<times> nat \<times> nat list) list" where
  "token_counts c a = token_counts_loop c a [GPT4oMini, GPT4O] []"

subsection \<open>Cost\<close>

text \<open>
  Modelled from the spec: the arithmetic of \<^verbatim>\<open>CostCalculator.calculate_cost\<close>, which
  lives in \<^verbatim>\<open>cost_calculator.py\<close>, not among the sources. The specification gives the
  cost as \<^verbatim>\<open>(encoded_token_count(full_text, model) / 1000.0) * model.price_per_1000\<close>.
\<close>

definition token_cost :: "real \<Rightarrow> nat \<Rightarrow> real" where
  "token_cost price n = (real n / 1000) * price"

text \<open>
  Modelled from the spec: \<^verbatim>\<open>CostCalculator(model).calculate_cost(text)\<close>, absent as
  said above. The text is encoded with the model's encoder, the number of tokens is priced,
  and an exception of the encoder is passed on.
\<close>

definition CostCalculator_calculate_cost ::
  "collaborators \<Rightarrow> llm_client \<Rightarrow> string \<Rightarrow> error + real" where
  "CostCalculator_calculate_cost c model text =
     (case encode c model text of
        Inl e \<Rightarrow> Inl e
      | Inr toks \<Rightarrow> Inr (token_cost (price_per_1000 c model) (length toks)))"

text \<open>
  \<^verbatim>\<open>BookAnalyzer.calculate_cost\<close>: the text that is priced is built from the tokenized
  chapters, the tokens of a chapter joined by a space and the chapters joined by a space.
\<close>

definition calculate_cost :: "collaborators \<Rightarrow> book_analyzer \<Rightarrow> llm_client \<Rightarrow> error + real" where
  "calculate_cost c a model_client =
     (let full_text = join '' '' (map (join '' '') (tokenized_chapters a))
      in CostCalculator_calculate_cost c model_client full_text)"

subsection \<open>The legacy analyzer\<close>

record epub_word_analyzer =
  legacy_chapters :: "string list"
  legacy_tokenized_chapters :: "string list list"

definition EpubWordAnalyzer :: "collaborators \<Rightarrow> string \<Rightarrow> error + epub_word_analyzer" where
  "EpubWordAnalyzer c epub_file =
     (case get_chapters c epub_file of
        Inl e \<Rightarrow> Inl e
      | Inr chs \<Rightarrow>
          Inr \<lparr>legacy_chapters = chs,
               legacy_tokenized_chapters = map (word_tokenize c) chs\<rparr>)"

definition get_word_counts :: "epub_word_analyzer \<Rightarrow> nat \<times> nat list" where
  "get_word_counts a =
     (let total_word_count = sum_list (map length (legacy_tokenized_chapters a));
          chapter_word_counts = map length (legacy_tokenized_chapters a)
      in (total_word_count, chapter_word_counts))"

definition get_word_frequency :: "epub_word_analyzer \<Rightarrow> (string \<times> nat) list" where
  "get_word_frequency a =
     (let all_tokens = concat (legacy_tokenized_chapters a);
          frequency = Counter all_tokens;
          sorted_frequency = dict (most_common frequency)
      in sorted_frequency)"

text \<open>
  \<^verbatim>\<open>EpubWordAnalyzer.calculate_book_cost\<close> joins \<^verbatim>\<open>self.chapters\<close>, whose elements are
  strings: the inner \<^verbatim>\<open>" ".join(chapter)\<close> runs over the characters of a chapter and puts
  a space between any two of them. The legacy calculator is found by the model's name; the
  model stands for its name here.
\<close>

definition calculate_book_cost ::
  "collaborators \<Rightarrow> epub_word_analyzer \<Rightarrow> llm_client \<Rightarrow> error + real" where
  "calculate_book_cost c a model =
     (let full_text =
            join '' '' (map (\<lambda>chapter. join '' '' (map (\<lambda>ch. [ch]) chapter)) (legacy_chapters a))
      in CostCalculator_calculate_cost c model full_text)"

subsection \<open>Formatting\<close>

text \<open>\<^verbatim>\<open>str(n)\<close> for a natural number, and the format \<^verbatim>\<open>{n:,}\<close> that groups by thousands.\<close>

definition digit_char :: "nat \<Rightarrow> char" where
  "digit_char d = char_of (48 + d)"

fun str_nat :: "nat \<Rightarrow> string" where
  "str_nat n = (if n < 10 then [digit_char n] else str_nat (n div 10) @ [digit_char (n mod 10)])"

declare str_nat.simps [simp del]

fun group3 :: "string \<Rightarrow> string" where
  "group3 (d1 # d2 # d3 # d4 # rest) = d1 # d2 # d3 # CHR '','' # group3 (d4 # rest)"
| "group3 ds = ds"

definition format_commas :: "nat \<Rightarrow> string" where
  "format_commas n = rev (group3 (rev (str_nat n)))"

abbreviation nl :: string where
  "nl \<equiv> [CHR 0x0A]"

subsection \<open>The report\<close>

text \<open>
  Each function below returns the strings handed to \<^verbatim>\<open>file.write\<close>, one element per call
  and in the order of the calls, together with the exception that ended the loop, if any.
\<close>

definition overview_writes :: "nat \<Rightarrow> string list" where
  "overview_writes total_word_count =
     [''# Book Statistics'' @ nl @ nl,
      ''## Overview'' @ nl @ nl,
      ''Total Word Count: '' @ format_commas total_word_count @ nl @ nl,
      ''| Model | Cost |'' @ nl,
      ''|-------|------|'' @ nl]"

fun cost_rows ::
  "collaborators \<Rightarrow> book_analyzer \<Rightarrow> llm_client list \<Rightarrow> string list \<times> error option" where
  "cost_rows c a [] = ([], None)"
| "cost_rows c a (model # models) =
     (case calculate_cost c a model of
        Inl e \<Rightarrow> ([], Some e)
      | Inr cost \<Rightarrow>
          (let (ws, r) = cost_rows c a models
           in ((''| '' @ model_name c model @ '' | $'' @ format_2f c cost @ '' |'' @ nl) # ws, r)))"

definition chapter_table_writes :: "string list \<Rightarrow> string list" where
  "chapter_table_writes models =
     [''## Word and Token Counts per Chapter'' @ nl @ nl,
      ''| Chapter | Words |'' @ join '' | '' (map (\<lambda>model. model @ '' Tokens'') models)
         @ '' |'' @ nl,
      ''|---------|-------|'' @ join '' | '' (replicate (length models) ''--------'')
         @ ''|'' @ nl]"

text \<open>\<^verbatim>\<open>token_counts[model][1][i]\<close> for every model: a missing key or index raises.\<close>

fun token_cells ::
  "(string \<times> nat \<times> nat list) list \<Rightarrow> string list \<Rightarrow> nat \<Rightarrow> error + string list" where
  "token_cells tcs [] i = Inr []"
| "token_cells tcs (model # models) i =
     (case map_of tcs model of
        None \<Rightarrow> Inl KeyError
      | Some (total_count, counts) \<Rightarrow>
          if i < length counts then
            (case token_cells tcs models i of
               Inl e \<Rightarrow> Inl e
             | Inr cells \<Rightarrow> Inr (format_commas (counts ! i) # cells))
          else Inl IndexError)"

fun chapter_rows ::
  "(string \<times> nat \<times> nat list) list \<Rightarrow> string list \<Rightarrow> nat \<Rightarrow> nat list
     \<Rightarrow> string list \<times> error option" where
  "chapter_rows tcs models i [] = ([], None)"
| "chapter_rows tcs models i (word_count # rest) =
     (case token_cells tcs models i of
        Inl e \<Rightarrow> ([], Some e)
      | Inr cells \<Rightarrow>
          (let token_counts_row = join '' | '' cells;
               (ws, r) = chapter_rows tcs models (Suc i) rest
           in ((''| '' @ str_nat (i + 1) @ '' | '' @ format_commas word_count @ '' | ''
                  @ token_counts_row @ '' |'' @ nl) # ws, r)))"

definition frequency_row :: "string \<times> nat \<Rightarrow> string" where
  "frequency_row p = ''| '' @ fst p @ '' | '' @ str_nat (snd p) @ '' |'' @ nl"

text \<open>The loop over \<^verbatim>\<open>enumerate(word_frequencies.items())\<close> with its \<^verbatim>\<open>break\<close>.\<close>

fun frequency_rows :: "nat \<Rightarrow> (string \<times> nat) list \<Rightarrow> string list" where
  "frequency_rows i [] = []"
| "frequency_rows i (p # rest) =
     (if i \<ge> 200 then [] else frequency_row p # frequency_rows (Suc i) rest)"

definition frequency_table_writes :: "(string \<times> nat) list \<Rightarrow> string list" where
  "frequency_table_writes freqs =
     [''## Word Frequencies (First 200 Words)'' @ nl @ nl,
      ''| Word | Frequency |'' @ nl,
      ''|------|-----------|'' @ nl]
     @ frequency_rows 0 freqs
     @ [nl]"

text \<open>
  The body of the \<^verbatim>\<open>with open(save_path, "w")\<close> block: the writes made, and the exception
  that left the block, if any.
\<close>

definition report_writes ::
  "collaborators \<Rightarrow> book_analyzer \<Rightarrow> (string \<times> nat \<times> nat list) list
     \<Rightarrow> string list \<times> error option" where
  "report_writes c a tcs =
     (let (total_word_count, chapter_word_counts) = word_counts a;
          word_frequencies = word_frequencies a;
          models = map fst tcs;
          w1 = overview_writes total_word_count;
          (w2, r2) = cost_rows c a [GPT4oMini, GPT4O]
      in case r2 of
           Some e \<Rightarrow> (w1 @ w2, Some e)
         | None \<Rightarrow>
             (let w3 = [nl] @ chapter_table_writes models;
                  (w4, r4) = chapter_rows tcs models 0 chapter_word_counts
              in case r4 of
                   Some e \<Rightarrow> (w1 @ w2 @ w3 @ w4, Some e)
                 | None \<Rightarrow>
                     (w1 @ w2 @ w3 @ w4 @ frequency_table_writes word_frequencies, None)))"

text \<open>
  \<^verbatim>\<open>save_path or self._default_save_path()\<close>: the default stands in when no path is
  given and when the path given is the empty string.
\<close>

definition save_path_or_default :: "collaborators \<Rightarrow> book_analyzer \<Rightarrow> string option \<Rightarrow> string" where
  "save_path_or_default c a save_path =
     (case save_path of
        None \<Rightarrow> default_save_path c a
      | Some p \<Rightarrow> if p = [] then default_save_path c a else p)"

text \<open>
  \<^verbatim>\<open>write_statistics\<close> on a file system that maps a path to the content of the file
  there. The statistics are computed first; then the destination is opened for writing,
  which creates or empties it, and receives the writes of the block. An exception inside
  the block closes the file, with what was written, and goes on to the caller.
\<close>

definition write_statistics ::
  "collaborators \<Rightarrow> book_analyzer \<Rightarrow> string option \<Rightarrow> (string \<rightharpoonup> string)
     \<Rightarrow> (string \<rightharpoonup> string) \<times> (error + unit)" where
  "write_statistics c a save_path fs =
     (let save_path = save_path_or_default c a save_path
      in case token_counts c a of
           Inl e \<Rightarrow> (fs, Inl e)
         | Inr tcs \<Rightarrow>
             (case report_writes c a tcs of
                (ws, Some e) \<Rightarrow> (fs(save_path \<mapsto> concat ws), Inl e)
              | (ws, None) \<Rightarrow> (fs(save_path \<mapsto> concat ws), Inr ())))"

subsection \<open>Example inputs\<close>

text \<open>
  The book of the specification's scenario, chapters \<^verbatim>\<open>"the cat sat"\<close> and
  \<^verbatim>\<open>"the dog ran the cat"\<close>, as the constructor leaves it with a tokenizer that splits
  at spaces.
\<close>

definition scenario_book :: book_analyzer where
  "scenario_book =
     \<lparr>epub_path = ''book.epub'',
      chapters = [''the cat sat'', ''the dog ran the cat''],
      tokenized_chapters =
        [[''the'', ''cat'', ''sat''], [''the'', ''dog'', ''ran'', ''the'', ''cat'']]\<rparr>"

text \<open>
  More books: one whose only chapter has two spaces in a row, one with two empty chapters,
  and one without chapters; the first also as the legacy analyzer holds it.
\<close>

definition wide_book :: book_analyzer where
  "wide_book =
     \<lparr>epub_path = ''wide.epub'', chapters = [''a  b''], tokenized_chapters = [[''a'', ''b'']]\<rparr>"

definition wide_book_legacy :: epub_word_analyzer where
  "wide_book_legacy =
     \<lparr>legacy_chapters = [''a  b''], legacy_tokenized_chapters = [[''a'', ''b'']]\<rparr>"

definition blank_book :: book_analyzer where
  "blank_book = \<lparr>epub_path = ''blank.epub'', chapters = ['''', ''''], tokenized_chapters = [[], []]\<rparr>"

definition empty_book :: book_analyzer where
  "empty_book = \<lparr>epub_path = ''empty.epub'', chapters = [], tokenized_chapters = []\<rparr>"

text \<open>A tokenizer that splits at spaces and drops empty pieces.\<close>

fun split_spaces_from :: "string \<Rightarrow> string \<Rightarrow> string list" where
  "split_spaces_from w [] = (if w = [] then [] else [w])"
| "split_spaces_from w (ch # rest) =
     (if ch = CHR '' '' then (if w = [] then [] else [w]) @ split_spaces_from [] rest
      else split_spaces_from (w @ [ch]) rest)"

definition split_spaces :: "string \<Rightarrow> string list" where
  "split_spaces s = split_spaces_from [] s"

text \<open>
  Collaborators for the examples: an extractor that knows a few books, the tokenizer above,
  an encoder that yields one token per character and refuses a text of more than \<open>limit\<close>
  characters, and prices per 1000 tokens.
\<close>

definition example_chapters :: "string \<Rightarrow> error + string list" where
  "example_chapters path =
     (if path = ''book.epub'' then Inr [''the cat sat'', ''the dog ran the cat'']
      else if path = ''wide.epub'' then Inr [''a  b'']
      else if path = ''empty.epub'' then Inr []
      else if path = ''blank.epub'' then Inr ['''', '''']
      else Inl FileNotFoundError)"

definition example_format_2f :: "real \<Rightarrow> string" where
  "example_format_2f x =
     (let n = nat \<lfloor>x * 100 + 1 / 2\<rfloor>
      in str_nat (n div 100) @ ''.'' @ [digit_char (n div 10 mod 10), digit_char (n mod 10)])"

definition example_collaborators :: "nat \<Rightarrow> collaborators" where
  "example_collaborators limit =
     \<lparr>get_chapters = example_chapters,
      word_tokenize = split_spaces,
      model_name = (\<lambda>m. case m of GPT4oMini \<Rightarrow> ''gpt-4o-mini'' | GPT4O \<Rightarrow> ''gpt-4o''),
      price_per_1000 = (\<lambda>m. case m of GPT4oMini \<Rightarrow> 15 / 100000 | GPT4O \<Rightarrow> 25 / 10000),
      encode = (\<lambda>m text. if length text \<le> limit then Inr (map of_char text)
                          else Inl EncodingError),
      splitext_root = takeWhile (\<lambda>ch. ch \<noteq> CHR ''.''),
      format_2f = example_format_2f\<rparr>"

subsection \<open>Properties of the built-ins\<close>

lemma count_element_keys:
  "map fst (count_element t d) = (if t \<in> set (map fst d) then map fst d else map fst d @ [t])"
  by (simp add: count_element_def update_keys)

lemma count_element_distinct:
  "distinct (map fst d) \<Longrightarrow> distinct (map fst (count_element t d))"
  by (simp add: count_element_def distinct_update)

lemma update_sum_snd:
  "distinct (map fst d) \<Longrightarrow>
   sum_list (map snd (AList.update t v d)) + (case map_of d t of None \<Rightarrow> 0 | Some n \<Rightarrow> n)
     = sum_list (map snd d) + (v::nat)"
proof (induction d)
  case Nil
  then show ?case by simp
next
  case (Cons p d)
  then show ?case
    by (cases p) (auto simp: image_iff map_of_eq_None_iff [THEN iffD2])
qed

lemma count_element_sum:
  "distinct (map fst d) \<Longrightarrow>
   sum_list (map snd (count_element t d)) = Suc (sum_list (map snd d))"
  using update_sum_snd [of d t "(case map_of d t of None \<Rightarrow> 0 | Some n \<Rightarrow> n) + 1"]
  by (simp add: count_element_def)

lemma fold_count_element_inv:
  "distinct (map fst d) \<Longrightarrow>
   distinct (map fst (fold count_element ts d)) \<and>
   sum_list (map snd (fold count_element ts d)) = sum_list (map snd d) + length ts"
proof (induction ts arbitrary: d)
  case Nil
  then show ?case by simp
next
  case (Cons t ts)
  from Cons.prems have "distinct (map fst (count_element t d))"
    by (rule count_element_distinct)
  from Cons.IH [OF this] show ?case
    by (simp add: count_element_sum [OF Cons.prems])
qed

lemma Counter_distinct: "distinct (map fst (Counter ts))"
  using fold_count_element_inv [of "[]" ts] by (simp add: Counter_def)

lemma Counter_sum: "sum_list (map snd (Counter ts)) = length ts"
  using fold_count_element_inv [of "[]" ts] by (simp add: Counter_def)

lemma sum_list_insort_key:
  "sum_list (map g (insort_key f x xs)) = g x + sum_list (map (g::'a \<Rightarrow> nat) xs)"
  by (induction xs) simp_all

lemma sum_list_sort_key:
  "sum_list (map g (sort_key f xs)) = sum_list (map (g::'a \<Rightarrow> nat) xs)"
  by (induction xs) (simp_all add: sum_list_insort_key)

lemma most_common_sum: "sum_list (map snd (most_common d)) = sum_list (map snd d)"
proof -
  have "sum_list (map snd (most_common d)) = sum_list (rev (map snd (sort_key snd (rev d))))"
    by (simp add: most_common_def rev_map)
  also have "\<dots> = sum_list (map snd (sort_key snd (rev d)))"
    by (simp only: sum_list_rev)
  also have "\<dots> = sum_list (map snd (rev d))"
    by (rule sum_list_sort_key)
  also have "\<dots> = sum_list (map snd d)"
    by (simp only: rev_map [symmetric] sum_list_rev)
  finally show ?thesis .
qed

lemma most_common_distinct:
  "distinct (map fst d) \<Longrightarrow> distinct (map fst (most_common d))"
proof -
  assume "distinct (map fst d)"
  then have "distinct (map fst (rev d))"
    by (simp add: rev_map [symmetric])
  then have "distinct (map fst (sort_key snd (rev d)))"
    by (simp add: distinct_map)
  then show ?thesis
    by (simp add: most_common_def rev_map [symmetric])
qed

text \<open>Building a dictionary from pairs with distinct keys keeps the pairs as they are.\<close>

lemma fold_update_distinct:
  "distinct (map fst (d @ ps)) \<Longrightarrow> fold (\<lambda>(k, v) d. AList.update k v d) ps d = d @ ps"
proof (induction ps arbitrary: d)
  case Nil
  then show ?case by simp
next
  case (Cons p ps)
  obtain k v where p: "p = (k, v)" by (cases p)
  from Cons.prems p have "k \<notin> fst ` set d" by auto
  then have upd: "AList.update k v d = d @ [(k, v)]"
    by (induction d) auto
  from Cons.prems p have "distinct (map fst ((d @ [(k, v)]) @ ps))" by simp
  from Cons.IH [OF this] show ?case
    by (simp add: p upd)
qed

lemma dict_distinct: "distinct (map fst ps) \<Longrightarrow> dict ps = ps"
  using fold_update_distinct [of "[]" ps] by (simp add: dict_def)

lemma word_frequencies_eq:
  "word_frequencies a = most_common (Counter (concat (tokenized_chapters a)))"
  by (simp add: word_frequencies_def Let_def dict_distinct most_common_distinct Counter_distinct)

text \<open>
  The legacy analyzer computes its word counts and its frequency table as the packaged
  one does.
\<close>

lemma get_word_counts_eq:
  "legacy_tokenized_chapters l = tokenized_chapters a \<Longrightarrow> get_word_counts l = word_counts a"
  by (simp add: get_word_counts_def word_counts_def)

lemma get_word_frequency_eq:
  "legacy_tokenized_chapters l = tokenized_chapters a \<Longrightarrow>
   get_word_frequency l = word_frequencies a"
  by (simp add: get_word_frequency_def word_frequencies_def)

subsection \<open>First occurrences and the order of the table\<close>

lemma first_index_append_mem:
  "w \<in> set xs \<Longrightarrow> first_index (xs @ ys) w = first_index xs w"
  by (simp add: first_index_def takeWhile_append1)

lemma first_index_less: "w \<in> set xs \<Longrightarrow> first_index xs w < length xs"
  unfolding first_index_def by (induction xs) auto

lemma first_index_snoc_new: "w \<notin> set xs \<Longrightarrow> first_index (xs @ [w]) w = length xs"
  unfolding first_index_def by (induction xs) auto

lemma Counter_snoc: "Counter (ts @ [t]) = count_element t (Counter ts)"
  by (simp add: Counter_def)

lemma map_of_count_element:
  "map_of (count_element t d) w =
     (if w = t then Some ((case map_of d t of None \<Rightarrow> 0 | Some n \<Rightarrow> n) + 1) else map_of d w)"
  by (simp add: count_element_def update_conv')

lemma Counter_lookup:
  "map_of (Counter ts) w = (if w \<in> set ts then Some (count_list ts w) else None)"
proof (induction ts rule: rev_induct)
  case Nil
  then show ?case by (simp add: Counter_def)
next
  case (snoc t ts)
  then show ?case
    by (auto simp: Counter_snoc map_of_count_element)
qed

lemma Counter_keys_set: "fst ` set (Counter ts) = set ts"
proof -
  have "w \<in> fst ` set (Counter ts) \<longleftrightarrow> w \<in> set ts" for w
    using Counter_lookup [of ts w] map_of_eq_None_iff [of "Counter ts" w]
    by (simp split: if_splits)
  then show ?thesis by blast
qed

lemma Counter_keys_sorted:
  "sorted_wrt (\<lambda>k k'. first_index ts k < first_index ts k') (map fst (Counter ts))"
proof (induction ts rule: rev_induct)
  case Nil
  then show ?case by (simp add: Counter_def)
next
  case (snoc t ts)
  have old: "sorted_wrt (\<lambda>k k'. first_index (ts @ [t]) k < first_index (ts @ [t]) k')
               (map fst (Counter ts))"
    using snoc.IH
    by (rule sorted_wrt_mono_rel [rotated]) (simp add: Counter_keys_set first_index_append_mem)
  show ?case
  proof (cases "t \<in> set ts")
    case True
    then show ?thesis using old
      by (simp add: Counter_snoc count_element_keys Counter_keys_set)
  next
    case False
    then have "\<forall>k \<in> set (map fst (Counter ts)).
                 first_index (ts @ [t]) k < first_index (ts @ [t]) t"
      by (simp add: Counter_keys_set first_index_append_mem first_index_snoc_new first_index_less)
    with False old show ?thesis
      by (simp add: Counter_snoc count_element_keys Counter_keys_set sorted_wrt_append)
  qed
qed

lemma sorted_wrt_insort_key_ties:
  fixes f :: "'a \<Rightarrow> 'b::linorder"
  assumes "sorted_wrt (\<lambda>p q. f p < f q \<or> (f p = f q \<and> R p q)) ys"
    and "\<forall>y \<in> set ys. R x y"
  shows "sorted_wrt (\<lambda>p q. f p < f q \<or> (f p = f q \<and> R p q)) (insort_key f x ys)"
  using assms
proof (induction ys)
  case Nil
  then show ?case by simp
next
  case (Cons y ys)
  show ?case
  proof (cases "f x \<le> f y")
    case True
    have "\<forall>z \<in> set (y # ys). f x < f z \<or> (f x = f z \<and> R x z)"
    proof
      fix z assume z: "z \<in> set (y # ys)"
      with Cons.prems(1) have "f y \<le> f z" by auto
      with True have "f x \<le> f z" by simp
      moreover from z Cons.prems(2) have "R x z" by auto
      ultimately show "f x < f z \<or> (f x = f z \<and> R x z)" by auto
    qed
    with True Cons.prems(1) show ?thesis by simp
  next
    case False
    then have "f y < f x" by simp
    with False Cons show ?thesis
      by (auto simp: set_insort_key)
  qed
qed

lemma sorted_wrt_sort_key_ties:
  fixes f :: "'a \<Rightarrow> 'b::linorder"
  shows "sorted_wrt R xs \<Longrightarrow>
         sorted_wrt (\<lambda>p q. f p < f q \<or> (f p = f q \<and> R p q)) (sort_key f xs)"
proof (induction xs)
  case Nil
  then show ?case by simp
next
  case (Cons x xs)
  then show ?case
    by (simp add: sorted_wrt_insort_key_ties)
qed

lemma most_common_sorted:
  assumes "sorted_wrt R d"
  shows "sorted_wrt (\<lambda>p q. snd q < snd p \<or> (snd p = snd q \<and> R p q)) (most_common d)"
proof -
  from assms have "sorted_wrt (\<lambda>p q. R q p) (rev d)"
    by (simp add: sorted_wrt_rev)
  then have "sorted_wrt (\<lambda>p q. snd p < snd q \<or> (snd p = snd q \<and> R q p)) (sort_key snd (rev d))"
    by (rule sorted_wrt_sort_key_ties)
  then have "sorted_wrt (\<lambda>q p. snd p < snd q \<or> (snd p = snd q \<and> R q p)) (most_common d)"
    by (simp add: most_common_def sorted_wrt_rev)
  then show ?thesis
    by (rule sorted_wrt_mono_rel [rotated]) auto
qed

lemma most_common_set: "set (most_common d) = set d"
  by (simp add: most_common_def)


lemma word_frequencies_entry:
  assumes "p \<in> set (word_frequencies a)"
  shows "snd p = count_list (concat (tokenized_chapters a)) (fst p)"
proof -
  from assms have mem: "p \<in> set (Counter (concat (tokenized_chapters a)))"
    by (simp add: word_frequencies_eq most_common_set)
  then have "map_of (Counter (concat (tokenized_chapters a))) (fst p) = Some (snd p)"
    by (simp add: Counter_distinct)
  moreover from mem have "fst p \<in> fst ` set (Counter (concat (tokenized_chapters a)))"
    by (rule imageI)
  ultimately show ?thesis
    by (simp add: Counter_lookup Counter_keys_set)
qed

subsection \<open>Token counts and cost\<close>

lemma encoded_lengths_Inr:
  "encoded_lengths enc chs = Inr ns \<Longrightarrow>
     list_all2 (\<lambda>ch n. \<exists>toks. enc ch = Inr toks \<and> n = length toks) chs ns"
proof (induction chs arbitrary: ns)
  case Nil
  then show ?case by simp
next
  case (Cons ch chs)
  then show ?case
    by (auto split: sum.splits)
qed

lemma encoded_lengths_success:
  "(\<And>ch. ch \<in> set chs \<Longrightarrow> enc ch = Inr (E ch)) \<Longrightarrow>
   encoded_lengths enc chs = Inr (map (\<lambda>ch. length (E ch)) chs)"
  by (induction chs) simp_all

lemma encoded_lengths_failure:
  "ch \<in> set chs \<Longrightarrow> enc ch = Inl e \<Longrightarrow> \<exists>e'. encoded_lengths enc chs = Inl e'"
  by (induction chs) (auto split: sum.splits)

lemma model_token_counts_eq:
  "model_token_counts c a m =
     (case encoded_lengths (encode c m) (chapters a) of
        Inl e \<Rightarrow> Inl e
      | Inr ns \<Rightarrow> Inr (sum_list ns, ns))"
  by (simp add: model_token_counts_def split: sum.splits)

lemma token_counts_eq:
  "token_counts c a =
     (case model_token_counts c a GPT4oMini of
        Inl e \<Rightarrow> Inl e
      | Inr e1 \<Rightarrow>
          (case model_token_counts c a GPT4O of
             Inl e \<Rightarrow> Inl e
           | Inr e2 \<Rightarrow>
               Inr (if model_name c GPT4oMini = model_name c GPT4O
                    then [(model_name c GPT4O, e2)]
                    else [(model_name c GPT4oMini, e1), (model_name c GPT4O, e2)])))"
  by (simp add: token_counts_def split: sum.splits)

lemma token_counts_failure:
  assumes "ch \<in> set (chapters a)" and "encode c m ch = Inl e"
  shows "\<exists>e'. token_counts c a = Inl e'"
proof -
  from assms obtain e' where "encoded_lengths (encode c m) (chapters a) = Inl e'"
    using encoded_lengths_failure by blast
  then have "model_token_counts c a m = Inl e'"
    by (simp add: model_token_counts_eq)
  then show ?thesis
    by (cases m) (auto simp: token_counts_eq split: sum.splits)
qed

lemma token_cost_mono: "0 \<le> price \<Longrightarrow> n \<le> n' \<Longrightarrow> token_cost price n \<le> token_cost price n'"
  by (simp add: token_cost_def mult_right_mono divide_right_mono)

lemma token_cost_double: "token_cost price (2 * n) = 2 * token_cost price n"
  by (simp add: token_cost_def)

lemma CostCalculator_calculate_cost_Inr:
  "encode c m text = Inr toks \<Longrightarrow>
   CostCalculator_calculate_cost c m text = Inr (token_cost (price_per_1000 c m) (length toks))"
  by (simp add: CostCalculator_calculate_cost_def)

subsection \<open>The cost text and the report\<close>

lemma BookAnalyzer_tokenized:
  "BookAnalyzer c path = Inr a \<Longrightarrow> tokenized_chapters a = map (word_tokenize c) (chapters a)"
  by (auto simp: BookAnalyzer_def split: sum.splits)

lemma join_replicate_empty: "join sep (replicate (Suc n) []) = concat (replicate n sep)"
  by (induction n) simp_all

lemma join_spaces_empty: "join '' '' (replicate n []) = replicate (n - 1) CHR '' ''"
proof (cases n)
  case 0
  then show ?thesis by simp
next
  case (Suc k)
  have "concat (replicate k '' '') = replicate k CHR '' ''"
    by (induction k) simp_all
  moreover have "join '' '' (replicate (Suc k) []) = concat (replicate k '' '')"
    by (rule join_replicate_empty)
  ultimately show ?thesis using Suc by simp
qed

lemma all_empty_replicate: "(\<forall>x \<in> set xs. x = []) \<Longrightarrow> xs = replicate (length xs) []"
  by (induction xs) simp_all

lemma write_statistics_eq:
  "write_statistics c a save_path fs =
     (case token_counts c a of
        Inl e \<Rightarrow> (fs, Inl e)
      | Inr tcs \<Rightarrow>
          (fs(save_path_or_default c a save_path \<mapsto> concat (fst (report_writes c a tcs))),
           case snd (report_writes c a tcs) of Some e \<Rightarrow> Inl e | None \<Rightarrow> Inr ()))"
  by (simp add: write_statistics_def Let_def split: sum.splits prod.splits option.splits)

lemma report_writes_overview:
  "\<exists>rest. fst (report_writes c a tcs) = overview_writes (fst (word_counts a)) @ rest"
  by (simp add: report_writes_def Let_def split: prod.splits option.splits)

lemma report_writes_first_cost_fails:
  "calculate_cost c a GPT4oMini = Inl e \<Longrightarrow>
   report_writes c a tcs = (overview_writes (fst (word_counts a)), Some e)"
  by (simp add: report_writes_def Let_def split: prod.splits)

lemma frequency_rows_take:
  "frequency_rows i ps = map frequency_row (take (200 - i) ps)"
proof (induction ps arbitrary: i)
  case Nil
  then show ?case by simp
next
  case (Cons p ps)
  show ?case
  proof (cases "i \<ge> 200")
    case True
    then show ?thesis by simp
  next
    case False
    then have "200 - i = Suc (200 - Suc i)" by simp
    with False Cons.IH [of "Suc i"] show ?thesis
      by (simp del: diff_Suc)
  qed
qed

lemma report_writes_frequency_table:
  "report_writes c a tcs = (ws, None) \<Longrightarrow>
   \<exists>pre. ws = pre @ frequency_table_writes (word_frequencies a)"
  by (auto simp: report_writes_def Let_def split: prod.splits option.splits)

lemma token_cells_ok:
  "(\<forall>model \<in> set models. \<exists>t cs. map_of tcs model = Some (t, cs) \<and> i < length cs) \<Longrightarrow>
   \<exists>cells. token_cells tcs models i = Inr cells"
  by (induction models) auto

lemma chapter_rows_ok:
  "(\<forall>model \<in> set models. \<exists>t cs. map_of tcs model = Some (t, cs) \<and> i + length wcs \<le> length cs) \<Longrightarrow>
   snd (chapter_rows tcs models i wcs) = None"
proof (induction wcs arbitrary: i)
  case Nil
  then show ?case by simp
next
  case (Cons w wcs)
  from Cons.prems
  have "\<forall>model \<in> set models. \<exists>t cs. map_of tcs model = Some (t, cs) \<and> i < length cs"
    by fastforce
  then obtain cells where cells: "token_cells tcs models i = Inr cells"
    using token_cells_ok by blast
  from Cons.prems
  have "\<forall>model \<in> set models. \<exists>t cs. map_of tcs model = Some (t, cs) \<and> Suc i + length wcs \<le> length cs"
    by fastforce
  then have "snd (chapter_rows tcs models (Suc i) wcs) = None"
    by (rule Cons.IH)
  with cells show ?case
    by (auto simp: Let_def split: prod.splits)
qed

lemma token_counts_entries:
  assumes "token_counts c a = Inr tcs"
  shows "\<forall>model \<in> set (map fst tcs).
           \<exists>t cs. map_of tcs model = Some (t, cs) \<and> length cs = length (chapters a)"
proof -
  have len: "length cs = length (chapters a)" if "model_token_counts c a m = Inr (t, cs)" for m t cs
  proof -
    from that have "encoded_lengths (encode c m) (chapters a) = Inr cs"
      by (auto simp: model_token_counts_eq split: sum.splits)
    then show ?thesis
      using encoded_lengths_Inr list_all2_lengthD by fastforce
  qed
  from assms obtain e1 e2 where e1: "model_token_counts c a GPT4oMini = Inr e1"
    and e2: "model_token_counts c a GPT4O = Inr e2"
    and tcs: "tcs = (if model_name c GPT4oMini = model_name c GPT4O
                    then [(model_name c GPT4O, e2)]
                    else [(model_name c GPT4oMini, e1), (model_name c GPT4O, e2)])"
    by (auto simp: token_counts_eq split: sum.splits)
  from e1 len [of GPT4oMini "fst e1" "snd e1"] have l1: "length (snd e1) = length (chapters a)"
    by simp
  from e2 len [of GPT4O "fst e2" "snd e2"] have l2: "length (snd e2) = length (chapters a)"
    by simp
  show ?thesis
    using l1 l2 by (cases e1; cases e2) (auto simp: tcs)
qed

lemma cost_rows_ok:
  "calculate_cost c a GPT4oMini = Inr x \<Longrightarrow> calculate_cost c a GPT4O = Inr y \<Longrightarrow>
   snd (cost_rows c a [GPT4oMini, GPT4O]) = None"
  by simp

lemma report_writes_snd:
  "snd (report_writes c a tcs) =
     (case snd (cost_rows c a [GPT4oMini, GPT4O]) of
        Some e \<Rightarrow> Some e
      | None \<Rightarrow> snd (chapter_rows tcs (map fst tcs) 0 (snd (word_counts a))))"
  by (simp add: report_writes_def Let_def split: prod.splits option.splits)

lemma write_statistics_succeeds:
  assumes tc: "token_counts c a = Inr tcs"
    and c1: "calculate_cost c a GPT4oMini = Inr x"
    and c2: "calculate_cost c a GPT4O = Inr y"
    and len: "length (tokenized_chapters a) \<le> length (chapters a)"
  shows "write_statistics c a save_path fs =
           (fs(save_path_or_default c a save_path \<mapsto> concat (fst (report_writes c a tcs))),
            Inr ())"
proof -
  from token_counts_entries [OF tc] len
  have "\<forall>model \<in> set (map fst tcs). \<exists>t cs. map_of tcs model = Some (t, cs) \<and>
          0 + length (snd (word_counts a)) \<le> length cs"
    by (fastforce simp: word_counts_def)
  then have "snd (chapter_rows tcs (map fst tcs) 0 (snd (word_counts a))) = None"
    by (rule chapter_rows_ok)
  with cost_rows_ok [OF c1 c2] have "snd (report_writes c a tcs) = None"
    by (simp add: report_writes_snd)
  with tc show ?thesis
    by (simp add: write_statistics_eq)
qed

lemma token_counts_succeeds:
  assumes "\<And>m ch. ch \<in> set (chapters a) \<Longrightarrow> encode c m ch = Inr (E m ch)"
  shows "\<exists>tcs. token_counts c a = Inr tcs"
proof -
  have "encoded_lengths (encode c m) (chapters a)
          = Inr (map (\<lambda>ch. length (E m ch)) (chapters a))" for m
    by (rule encoded_lengths_success) (rule assms)
  then show ?thesis
    by (simp add: token_counts_eq model_token_counts_eq)
qed

subsection \<open>Claims\<close>

text \<open>
  C2: for every sequence of tokenized chapters, the empty one included, \<open>word_counts\<close>
  returns a total that is the sum of the per-chapter counts, one count per chapter, and the
  count at index \<open>i\<close> is the length of tokenized chapter \<open>i\<close>.
\<close>

theorem word_counts_correct:
  "fst (word_counts a) = sum_list (snd (word_counts a)) \<and>
   length (snd (word_counts a)) = length (tokenized_chapters a) \<and>
   (\<forall>i < length (tokenized_chapters a).
      snd (word_counts a) ! i = length (tokenized_chapters a ! i))"
  by (simp add: word_counts_def)

theorem word_counts_correct_witness:
  "(1::nat) < length (tokenized_chapters scenario_book) \<and>
   word_counts scenario_book = (8, [3, 5]) \<and>
   snd (word_counts scenario_book) ! 1 = length (tokenized_chapters scenario_book ! 1)"
proof -
  have len: "(1::nat) < length (tokenized_chapters scenario_book)"
    by (simp add: scenario_book_def)
  with word_counts_correct [of scenario_book]
  have "snd (word_counts scenario_book) ! 1 = length (tokenized_chapters scenario_book ! 1)"
    by blast
  moreover have "word_counts scenario_book = (8, [3, 5])"
    by (simp add: word_counts_def scenario_book_def)
  ultimately show ?thesis using len by blast
qed

text \<open>
  C3: the occurrence counts of the table returned by \<open>word_frequencies\<close> add up to the
  total word count returned by \<open>word_counts\<close> on the same tokenized chapters.
\<close>

theorem word_frequencies_sum:
  "sum_list (map snd (word_frequencies a)) = fst (word_counts a)"
  by (simp add: word_frequencies_eq most_common_sum Counter_sum word_counts_def length_concat)

text \<open>
  C4: the entries of the table returned by \<open>word_frequencies\<close> come in descending order
  of their counts, and of two tokens with equal counts the one whose first occurrence in the
  flattened token stream is earlier comes first. Each entry's count is the number of
  occurrences of its token in the stream, and no token has two entries.
\<close>

theorem word_frequencies_order:
  assumes "i < j" and "j < length (word_frequencies a)"
  shows "snd (word_frequencies a ! j) \<le> snd (word_frequencies a ! i) \<and>
         (snd (word_frequencies a ! i) = snd (word_frequencies a ! j) \<longrightarrow>
            first_index (concat (tokenized_chapters a)) (fst (word_frequencies a ! i))
              < first_index (concat (tokenized_chapters a)) (fst (word_frequencies a ! j))) \<and>
         snd (word_frequencies a ! i)
           = count_list (concat (tokenized_chapters a)) (fst (word_frequencies a ! i)) \<and>
         snd (word_frequencies a ! j)
           = count_list (concat (tokenized_chapters a)) (fst (word_frequencies a ! j)) \<and>
         fst (word_frequencies a ! i) \<noteq> fst (word_frequencies a ! j)"
proof -
  let ?flat = "concat (tokenized_chapters a)"
  let ?R = "\<lambda>p q. first_index ?flat (fst p) < first_index ?flat (fst q)"
  have "sorted_wrt ?R (Counter ?flat)"
    using Counter_keys_sorted [of ?flat] by (simp add: sorted_wrt_map)
  then have "sorted_wrt (\<lambda>p q. snd q < snd p \<or> (snd p = snd q \<and> ?R p q))
               (word_frequencies a)"
    unfolding word_frequencies_eq by (rule most_common_sorted)
  from sorted_wrt_nth_less [OF this assms]
  have order: "snd (word_frequencies a ! j) < snd (word_frequencies a ! i) \<or>
      (snd (word_frequencies a ! i) = snd (word_frequencies a ! j) \<and>
       ?R (word_frequencies a ! i) (word_frequencies a ! j))" .
  from assms have "word_frequencies a ! i \<in> set (word_frequencies a)"
    and "word_frequencies a ! j \<in> set (word_frequencies a)"
    by simp_all
  then have counts:
    "snd (word_frequencies a ! i) = count_list ?flat (fst (word_frequencies a ! i))"
    "snd (word_frequencies a ! j) = count_list ?flat (fst (word_frequencies a ! j))"
    by (simp_all add: word_frequencies_entry)
  have "distinct (map fst (word_frequencies a))"
    by (simp add: word_frequencies_eq most_common_distinct Counter_distinct)
  with assms have "fst (word_frequencies a ! i) \<noteq> fst (word_frequencies a ! j)"
    using distinct_conv_nth [of "map fst (word_frequencies a)"] by auto
  with order counts show ?thesis by auto
qed

theorem word_frequencies_order_witness:
  "(2::nat) < 3 \<and> 3 < length (word_frequencies scenario_book) \<and>
   word_frequencies scenario_book =
     [(''the'', 3), (''cat'', 2), (''sat'', 1), (''dog'', 1), (''ran'', 1)] \<and>
   first_index (concat (tokenized_chapters scenario_book)) ''sat''
     < first_index (concat (tokenized_chapters scenario_book)) ''dog''"
proof -
  have tbl: "word_frequencies scenario_book =
     [(''the'', 3), (''cat'', 2), (''sat'', 1), (''dog'', 1), (''ran'', 1)]"
    by code_simp
  have h1: "(2::nat) < 3" by simp
  have h2: "3 < length (word_frequencies scenario_book)" by (simp add: tbl)
  from word_frequencies_order [OF h1 h2] h1 h2 tbl show ?thesis
    by simp
qed

text \<open>
  C7: for each of the two models, \<open>token_counts\<close> encodes the raw text of every chapter on
  its own with that model's encoder and stores, under the model's name, the total of the
  encoded lengths and the list of the chapters' encoded lengths in chapter order. The
  tokenized chapters play no part. The models are told apart by their names, and every
  chapter is taken to encode without an exception, to \<open>E m ch\<close>.
\<close>

theorem token_counts_per_model:
  assumes enc: "\<And>m ch. ch \<in> set (chapters a) \<Longrightarrow> encode c m ch = Inr (E m ch)"
    and names: "model_name c GPT4oMini \<noteq> model_name c GPT4O"
  shows "token_counts c a =
           Inr [(model_name c GPT4oMini,
                 sum_list (map (\<lambda>ch. length (E GPT4oMini ch)) (chapters a)),
                 map (\<lambda>ch. length (E GPT4oMini ch)) (chapters a)),
                (model_name c GPT4O,
                 sum_list (map (\<lambda>ch. length (E GPT4O ch)) (chapters a)),
                 map (\<lambda>ch. length (E GPT4O ch)) (chapters a))]"
proof -
  have "encoded_lengths (encode c m) (chapters a)
          = Inr (map (\<lambda>ch. length (E m ch)) (chapters a))" for m
    by (rule encoded_lengths_success) (rule enc)
  then have "model_token_counts c a m
          = Inr (sum_list (map (\<lambda>ch. length (E m ch)) (chapters a)),
                 map (\<lambda>ch. length (E m ch)) (chapters a))" for m
    by (simp add: model_token_counts_eq)
  with names show ?thesis
    by (simp add: token_counts_eq)
qed

theorem token_counts_per_model_witness:
  "model_name (example_collaborators 100) GPT4oMini \<noteq> model_name (example_collaborators 100) GPT4O \<and>
   encode (example_collaborators 100) GPT4O ''the cat sat'' = Inr (map of_char ''the cat sat'') \<and>
   token_counts (example_collaborators 100) scenario_book =
     Inr [(''gpt-4o-mini'', 30, [11, 19]), (''gpt-4o'', 30, [11, 19])]"
proof -
  have h1: "encode (example_collaborators 100) m ch = Inr (map of_char ch)"
    if "ch \<in> set (chapters scenario_book)" for m ch
    using that by (auto simp: example_collaborators_def scenario_book_def)
  have h2: "model_name (example_collaborators 100) GPT4oMini
              \<noteq> model_name (example_collaborators 100) GPT4O"
    by (simp add: example_collaborators_def)
  have h3: "encode (example_collaborators 100) GPT4O ''the cat sat'' = Inr (map of_char ''the cat sat'')"
    by (simp add: example_collaborators_def)
  note r = token_counts_per_model [of scenario_book "example_collaborators 100"
      "\<lambda>m. map of_char", OF h1 h2]
  have "model_name (example_collaborators 100) GPT4oMini = ''gpt-4o-mini''"
    and "model_name (example_collaborators 100) GPT4O = ''gpt-4o''"
    and "map (\<lambda>ch. length (map of_char ch :: nat list)) (chapters scenario_book) = [11, 19]"
    by (simp_all add: example_collaborators_def scenario_book_def)
  with r have "token_counts (example_collaborators 100) scenario_book =
     Inr [(''gpt-4o-mini'', 30, [11, 19]), (''gpt-4o'', 30, [11, 19])]"
    by simp
  with h2 h3 show ?thesis by blast
qed

text \<open>
  C10: in every entry of the result of \<open>token_counts\<close>, the total is the sum of the
  per-chapter counts, there is one count per chapter, and the count at index \<open>i\<close> is the
  length of the encoding of chapter \<open>i\<close> under the model the entry is named after.
\<close>

theorem token_counts_entry:
  assumes "token_counts c a = Inr tcs"
    and "(name, total_count, counts) \<in> set tcs"
  shows "total_count = sum_list counts \<and>
         length counts = length (chapters a) \<and>
         (\<exists>m. name = model_name c m \<and>
              (\<forall>i < length (chapters a).
                 \<exists>toks. encode c m (chapters a ! i) = Inr toks \<and> counts ! i = length toks))"
proof -
  from assms obtain m where m: "name = model_name c m"
    and mt: "model_token_counts c a m = Inr (total_count, counts)"
    by (auto simp: token_counts_eq split: sum.splits if_splits)
  from mt have el: "encoded_lengths (encode c m) (chapters a) = Inr counts"
    and tot: "total_count = sum_list counts"
    by (auto simp: model_token_counts_eq split: sum.splits)
  from el have "list_all2 (\<lambda>ch n. \<exists>toks. encode c m ch = Inr toks \<and> n = length toks)
                  (chapters a) counts"
    by (simp add: encoded_lengths_Inr)
  then have "length counts = length (chapters a)"
    and "\<forall>i < length (chapters a).
           \<exists>toks. encode c m (chapters a ! i) = Inr toks \<and> counts ! i = length toks"
    by (auto simp: list_all2_conv_all_nth)
  with m tot show ?thesis by blast
qed

theorem token_counts_entry_witness:
  "token_counts (example_collaborators 100) scenario_book =
     Inr [(''gpt-4o-mini'', 30, [11, 19]), (''gpt-4o'', 30, [11, 19])] \<and>
   (30::nat) = sum_list [11, 19] \<and> length [11, 19 :: nat] = length (chapters scenario_book) \<and>
   (1::nat) < length (chapters scenario_book) \<and>
   (\<exists>toks. encode (example_collaborators 100) GPT4O (chapters scenario_book ! 1) = Inr toks \<and>
           [11, 19 :: nat] ! 1 = length toks)"
proof -
  have h1: "token_counts (example_collaborators 100) scenario_book =
     Inr [(''gpt-4o-mini'', 30, [11, 19]), (''gpt-4o'', 30, [11, 19])]"
    by code_simp
  have h2: "(''gpt-4o'', 30, [11, 19]) \<in> set [(''gpt-4o-mini'', 30, [11, 19]), (''gpt-4o'', 30::nat, [11, 19::nat])]"
    by simp
  have h3: "(1::nat) < length (chapters scenario_book)"
    by (simp add: scenario_book_def)
  from token_counts_entry [OF h1 h2] obtain m where
    sums: "(30::nat) = sum_list [11, 19]" "length [11, 19 :: nat] = length (chapters scenario_book)"
    and m: "''gpt-4o'' = model_name (example_collaborators 100) m"
    and each: "\<forall>i < length (chapters scenario_book).
       \<exists>toks. encode (example_collaborators 100) m (chapters scenario_book ! i) = Inr toks \<and>
              [11, 19 :: nat] ! i = length toks"
    by blast
  from m have "m = GPT4O"
    by (cases m) (simp_all add: example_collaborators_def)
  with each h3 have "\<exists>toks. encode (example_collaborators 100) GPT4O (chapters scenario_book ! 1) = Inr toks \<and>
           [11, 19 :: nat] ! 1 = length toks"
    by blast
  with h1 sums h3 show ?thesis by blast
qed


text \<open>
  C6: for a fixed model, whose price is not negative, the cost that \<open>calculate_cost\<close>
  computes does not decrease when the encoded token count of the priced text grows, and a
  book whose priced text has twice the encoded token count costs exactly twice as much.
\<close>

theorem calculate_cost_monotone_linear:
  assumes "encode c m (join '' '' (map (join '' '') (tokenized_chapters a1))) = Inr k1"
    and "encode c m (join '' '' (map (join '' '') (tokenized_chapters a2))) = Inr k2"
    and "0 \<le> price_per_1000 c m"
  shows "\<exists>c1 c2. calculate_cost c a1 m = Inr c1 \<and> calculate_cost c a2 m = Inr c2 \<and>
                 (length k1 \<le> length k2 \<longrightarrow> c1 \<le> c2) \<and>
                 (length k2 = 2 * length k1 \<longrightarrow> c2 = 2 * c1)"
proof (intro exI conjI impI)
  show "calculate_cost c a1 m = Inr (token_cost (price_per_1000 c m) (length k1))"
    using assms(1) by (simp add: calculate_cost_def CostCalculator_calculate_cost_Inr)
  show "calculate_cost c a2 m = Inr (token_cost (price_per_1000 c m) (length k2))"
    using assms(2) by (simp add: calculate_cost_def CostCalculator_calculate_cost_Inr)
  show "token_cost (price_per_1000 c m) (length k1) \<le> token_cost (price_per_1000 c m) (length k2)"
    if "length k1 \<le> length k2"
    using assms(3) that by (rule token_cost_mono)
  show "token_cost (price_per_1000 c m) (length k2) = 2 * token_cost (price_per_1000 c m) (length k1)"
    if "length k2 = 2 * length k1"
    using that by (simp add: token_cost_double)
qed

theorem calculate_cost_monotone_linear_witness:
  "encode (example_collaborators 100) GPT4O
     (join '' '' (map (join '' '') (tokenized_chapters wide_book))) = Inr (map of_char ''a b'') \<and>
   encode (example_collaborators 100) GPT4O
     (join '' '' (map (join '' '') (tokenized_chapters
        \<lparr>epub_path = ''pair.epub'', chapters = [''ab cde''],
         tokenized_chapters = [[''ab'', ''cde'']]\<rparr>))) = Inr (map of_char ''ab cde'') \<and>
   0 \<le> price_per_1000 (example_collaborators 100) GPT4O \<and>
   calculate_cost (example_collaborators 100) wide_book GPT4O = Inr (3 / 400000) \<and>
   calculate_cost (example_collaborators 100)
     \<lparr>epub_path = ''pair.epub'', chapters = [''ab cde''],
      tokenized_chapters = [[''ab'', ''cde'']]\<rparr> GPT4O = Inr (6 / 400000)"
proof -
  let ?pair = "\<lparr>epub_path = ''pair.epub'', chapters = [''ab cde''],
      tokenized_chapters = [[''ab'', ''cde'']]\<rparr>"
  have h1: "encode (example_collaborators 100) GPT4O
     (join '' '' (map (join '' '') (tokenized_chapters wide_book))) = Inr (map of_char ''a b'')"
    by (simp add: example_collaborators_def wide_book_def)
  have h2: "encode (example_collaborators 100) GPT4O
     (join '' '' (map (join '' '') (tokenized_chapters ?pair))) = Inr (map of_char ''ab cde'')"
    by (simp add: example_collaborators_def)
  have h3: "0 \<le> price_per_1000 (example_collaborators 100) GPT4O"
    by (simp add: example_collaborators_def)
  from calculate_cost_monotone_linear [OF h1 h2 h3]
  obtain c1 c2 where
    c1: "calculate_cost (example_collaborators 100) wide_book GPT4O = Inr c1"
    and c2: "calculate_cost (example_collaborators 100) ?pair GPT4O = Inr c2"
    and double: "c2 = 2 * c1" and mono: "c1 \<le> c2"
    by auto
  have v: "calculate_cost (example_collaborators 100) wide_book GPT4O = Inr (3 / 400000)"
    by (simp add: calculate_cost_def CostCalculator_calculate_cost_def token_cost_def
        example_collaborators_def wide_book_def)
  with c1 have "c1 = 3 / 400000" by simp
  with double c2 have "calculate_cost (example_collaborators 100) ?pair GPT4O = Inr (6 / 400000)"
    by simp
  with h1 h2 h3 v show ?thesis by blast
qed


text \<open>
  C1, as the code has it: for an analyzer the constructor built, \<open>calculate_cost\<close> is
  the encoded token count of a text, divided by 1000 and multiplied by the model's price,
  where the text is made of the word-tokenized chapters: the tokens of a chapter joined by
  single spaces, and the chapters joined by single spaces in chapter order. It is the
  concatenation of the raw chapter texts when joining a chapter's tokens gives the chapter
  back. An exception of the encoder is passed on.
\<close>

theorem calculate_cost_tokenized_text:
  assumes "BookAnalyzer c path = Inr a"
  shows "calculate_cost c a m =
           (case encode c m (join '' '' (map (\<lambda>ch. join '' '' (word_tokenize c ch)) (chapters a))) of
              Inl e \<Rightarrow> Inl e
            | Inr toks \<Rightarrow> Inr ((real (length toks) / 1000) * price_per_1000 c m)) \<and>
         ((\<forall>ch \<in> set (chapters a). join '' '' (word_tokenize c ch) = ch) \<longrightarrow>
          calculate_cost c a m =
           (case encode c m (join '' '' (chapters a)) of
              Inl e \<Rightarrow> Inl e
            | Inr toks \<Rightarrow> Inr ((real (length toks) / 1000) * price_per_1000 c m)))"
proof -
  from assms have tok: "map (join '' '') (tokenized_chapters a)
      = map (\<lambda>ch. join '' '' (word_tokenize c ch)) (chapters a)"
    by (simp add: BookAnalyzer_tokenized)
  then have first: "calculate_cost c a m =
           (case encode c m (join '' '' (map (\<lambda>ch. join '' '' (word_tokenize c ch)) (chapters a))) of
              Inl e \<Rightarrow> Inl e
            | Inr toks \<Rightarrow> Inr ((real (length toks) / 1000) * price_per_1000 c m))"
    by (simp add: calculate_cost_def CostCalculator_calculate_cost_def token_cost_def
        split: sum.splits)
  have "map (\<lambda>ch. join '' '' (word_tokenize c ch)) (chapters a) = chapters a"
    if "\<forall>ch \<in> set (chapters a). join '' '' (word_tokenize c ch) = ch"
    using that by (simp add: map_idI)
  with first show ?thesis by simp
qed

theorem calculate_cost_tokenized_text_witness:
  "BookAnalyzer (example_collaborators 100) ''book.epub'' = Inr scenario_book \<and>
   join '' '' (word_tokenize (example_collaborators 100) ''the cat sat'') = ''the cat sat'' \<and>
   join '' '' (word_tokenize (example_collaborators 100) ''the dog ran the cat'')
     = ''the dog ran the cat'' \<and>
   calculate_cost (example_collaborators 100) scenario_book GPT4O = Inr (31 / 400000)"
proof -
  have h1: "BookAnalyzer (example_collaborators 100) ''book.epub'' = Inr scenario_book"
    by code_simp
  have t1: "join '' '' (word_tokenize (example_collaborators 100) ''the cat sat'') = ''the cat sat''"
    by code_simp
  have t2: "join '' '' (word_tokenize (example_collaborators 100) ''the dog ran the cat'')
     = ''the dog ran the cat''"
    by code_simp
  have h2: "\<forall>ch \<in> set (chapters scenario_book).
              join '' '' (word_tokenize (example_collaborators 100) ch) = ch"
    using t1 t2 by (simp add: scenario_book_def)
  from calculate_cost_tokenized_text [OF h1, of GPT4O] h2
  have "calculate_cost (example_collaborators 100) scenario_book GPT4O =
           (case encode (example_collaborators 100) GPT4O (join '' '' (chapters scenario_book)) of
              Inl e \<Rightarrow> Inl e
            | Inr toks \<Rightarrow> Inr ((real (length toks) / 1000)
                 * price_per_1000 (example_collaborators 100) GPT4O))"
    by blast
  also have "\<dots> = Inr (31 / 400000)"
    by (simp add: example_collaborators_def scenario_book_def)
  finally show ?thesis using h1 t1 t2 by blast
qed

text \<open>
  The claim as stated, with the raw chapter texts, fails for a chapter with two spaces in a
  row: its tokens joined again are one character shorter. The legacy analyzer prices yet
  another text, with a space between any two characters of a chapter.
\<close>

theorem calculate_cost_raw_text_counterexample:
  "BookAnalyzer (example_collaborators 100) ''wide.epub'' = Inr wide_book \<and>
   EpubWordAnalyzer (example_collaborators 100) ''wide.epub'' = Inr wide_book_legacy \<and>
   CostCalculator_calculate_cost (example_collaborators 100) GPT4O
     (join '' '' (chapters wide_book)) = Inr (4 / 400000) \<and>
   calculate_cost (example_collaborators 100) wide_book GPT4O = Inr (3 / 400000) \<and>
   calculate_book_cost (example_collaborators 100) wide_book_legacy GPT4O = Inr (7 / 400000) \<and>
   calculate_cost (example_collaborators 100) wide_book GPT4O
     \<noteq> CostCalculator_calculate_cost (example_collaborators 100) GPT4O
         (join '' '' (chapters wide_book)) \<and>
   calculate_book_cost (example_collaborators 100) wide_book_legacy GPT4O
     \<noteq> CostCalculator_calculate_cost (example_collaborators 100) GPT4O
         (join '' '' (legacy_chapters wide_book_legacy))"
proof -
  have built: "BookAnalyzer (example_collaborators 100) ''wide.epub'' = Inr wide_book"
    by code_simp
  have legacy: "EpubWordAnalyzer (example_collaborators 100) ''wide.epub'' = Inr wide_book_legacy"
    by code_simp
  have raw: "CostCalculator_calculate_cost (example_collaborators 100) GPT4O
      (join '' '' (chapters wide_book)) = Inr (4 / 400000)"
    by (simp add: CostCalculator_calculate_cost_def token_cost_def example_collaborators_def
        wide_book_def)
  have raw': "CostCalculator_calculate_cost (example_collaborators 100) GPT4O
      (join '' '' (legacy_chapters wide_book_legacy)) = Inr (4 / 400000)"
    by (simp add: CostCalculator_calculate_cost_def token_cost_def example_collaborators_def
        wide_book_legacy_def)
  have c1: "calculate_cost (example_collaborators 100) wide_book GPT4O = Inr (3 / 400000)"
    by (simp add: calculate_cost_def CostCalculator_calculate_cost_def token_cost_def
        example_collaborators_def wide_book_def)
  have c2: "calculate_book_cost (example_collaborators 100) wide_book_legacy GPT4O
       = Inr (7 / 400000)"
    by (simp add: calculate_book_cost_def CostCalculator_calculate_cost_def token_cost_def
        example_collaborators_def wide_book_legacy_def)
  have "calculate_cost (example_collaborators 100) wide_book GPT4O
     \<noteq> CostCalculator_calculate_cost (example_collaborators 100) GPT4O
         (join '' '' (chapters wide_book))"
    by (simp only: raw c1) simp
  moreover have "calculate_book_cost (example_collaborators 100) wide_book_legacy GPT4O
     \<noteq> CostCalculator_calculate_cost (example_collaborators 100) GPT4O
         (join '' '' (legacy_chapters wide_book_legacy))"
    by (simp only: raw' c2) simp
  ultimately show ?thesis using built legacy raw c1 c2 by blast
qed

text \<open>
  C5, as the code has it: take a book the constructor built, all of whose chapters are
  empty, with a tokenizer and an encoder that return no tokens for the empty text. Its total
  word count is 0 and its frequency table is empty, and the text that is priced consists of
  one space for every chapter but the first. Whenever the encoder accepts that text, the
  cost of every model is its encoded token count priced by the formula, and
  \<open>write_statistics\<close> ends without an exception and leaves a report at the destination.
  With no chapter, or one empty chapter, the priced text is empty: the cost is 0 for every
  model and the report is written.
\<close>

theorem empty_book_statistics:
  assumes built: "BookAnalyzer c path = Inr a"
    and blank: "\<forall>ch \<in> set (chapters a). ch = []"
    and tok: "word_tokenize c [] = []"
    and enc: "\<And>m. encode c m [] = Inr []"
  shows "fst (word_counts a) = 0 \<and> word_frequencies a = [] \<and>
         (\<forall>m. calculate_cost c a m =
                CostCalculator_calculate_cost c m (replicate (length (chapters a) - 1) CHR '' '')) \<and>
         (length (chapters a) \<le> 1 \<longrightarrow>
            (\<forall>m. calculate_cost c a m = Inr 0) \<and>
            (\<exists>report. write_statistics c a save_path fs =
                        (fs(save_path_or_default c a save_path \<mapsto> report), Inr ()))) \<and>
         ((\<forall>m. \<exists>toks. encode c m (replicate (length (chapters a) - 1) CHR '' '') = Inr toks) \<longrightarrow>
            (\<forall>m. \<exists>toks. encode c m (replicate (length (chapters a) - 1) CHR '' '') = Inr toks \<and>
                   calculate_cost c a m = Inr ((real (length toks) / 1000) * price_per_1000 c m)) \<and>
            (\<exists>report. write_statistics c a save_path fs =
                        (fs(save_path_or_default c a save_path \<mapsto> report), Inr ())))"
proof -
  let ?n = "length (chapters a)"
  let ?spaces = "replicate (?n - 1) CHR '' ''"
  from built have "tokenized_chapters a = map (word_tokenize c) (chapters a)"
    by (rule BookAnalyzer_tokenized)
  with blank tok have allempty: "\<forall>t \<in> set (tokenized_chapters a). t = []"
    and tlen: "length (tokenized_chapters a) = ?n"
    by auto
  then have toks: "tokenized_chapters a = replicate ?n []"
    using all_empty_replicate [of "tokenized_chapters a"] by simp
  from allempty have wc: "fst (word_counts a) = 0"
    by (simp add: word_counts_def)
  from allempty have flat: "concat (tokenized_chapters a) = []"
    by simp
  have wf: "word_frequencies a = []"
    unfolding word_frequencies_eq flat by (simp add: Counter_def most_common_def)
  from toks have "map (join '' '') (tokenized_chapters a) = map (join '' '') (replicate ?n [])"
    by (rule arg_cong)
  then have "map (join '' '') (tokenized_chapters a) = replicate ?n []"
    by simp
  then have cost: "calculate_cost c a m = CostCalculator_calculate_cost c m ?spaces" for m
    by (simp add: calculate_cost_def join_spaces_empty)
  have "encode c m ch = Inr []" if "ch \<in> set (chapters a)" for m ch
  proof -
    from blank that have "ch = []" by blast
    with enc show ?thesis by simp
  qed
  then obtain tcs where tcs: "token_counts c a = Inr tcs"
    using token_counts_succeeds [of a c "\<lambda>m ch. []"] by blast
  have accepted: "(\<forall>m. \<exists>toks. encode c m ?spaces = Inr toks \<and>
                   calculate_cost c a m = Inr ((real (length toks) / 1000) * price_per_1000 c m)) \<and>
      (\<exists>report. write_statistics c a save_path fs =
                        (fs(save_path_or_default c a save_path \<mapsto> report), Inr ()))"
    if ok: "\<forall>m. \<exists>toks. encode c m ?spaces = Inr toks"
  proof -
    have priced: "\<exists>toks. encode c m ?spaces = Inr toks \<and>
        calculate_cost c a m = Inr ((real (length toks) / 1000) * price_per_1000 c m)" for m
    proof -
      from ok obtain toks where "encode c m ?spaces = Inr toks" by blast
      then show ?thesis
        by (simp add: cost CostCalculator_calculate_cost_def token_cost_def)
    qed
    from priced obtain x where c1: "calculate_cost c a GPT4oMini = Inr x" by blast
    from priced obtain y where c2: "calculate_cost c a GPT4O = Inr y" by blast
    from tlen have "length (tokenized_chapters a) \<le> length (chapters a)" by simp
    from write_statistics_succeeds [OF tcs c1 c2 this] priced show ?thesis
      by blast
  qed
  have small: "(\<forall>m. calculate_cost c a m = Inr 0) \<and>
      (\<exists>report. write_statistics c a save_path fs =
                        (fs(save_path_or_default c a save_path \<mapsto> report), Inr ()))"
    if few: "?n \<le> 1"
  proof -
    from few have empty: "?spaces = []" by simp
    with cost enc have zero: "calculate_cost c a m = Inr 0" for m
      by (simp add: CostCalculator_calculate_cost_def token_cost_def)
    from empty enc have "\<forall>m. \<exists>toks. encode c m ?spaces = Inr toks" by simp
    with accepted zero show ?thesis by blast
  qed
  from wc wf cost small accepted show ?thesis by blast
qed

theorem empty_book_statistics_witness:
  "BookAnalyzer (example_collaborators 100) ''empty.epub'' = Inr empty_book \<and>
   BookAnalyzer (example_collaborators 100) ''blank.epub'' = Inr blank_book \<and>
   word_tokenize (example_collaborators 100) [] = [] \<and>
   encode (example_collaborators 100) GPT4O [] = Inr [] \<and>
   length (chapters empty_book) \<le> 1 \<and>
   fst (word_counts empty_book) = 0 \<and> word_frequencies empty_book = [] \<and>
   calculate_cost (example_collaborators 100) empty_book GPT4O = Inr 0 \<and>
   snd (write_statistics (example_collaborators 100) empty_book None Map.empty) = Inr () \<and>
   encode (example_collaborators 100) GPT4O (replicate (length (chapters blank_book) - 1) CHR '' '')
     = Inr [32] \<and>
   fst (word_counts blank_book) = 0 \<and> word_frequencies blank_book = [] \<and>
   snd (write_statistics (example_collaborators 100) blank_book None Map.empty) = Inr ()"
proof -
  have h1: "BookAnalyzer (example_collaborators 100) ''empty.epub'' = Inr empty_book"
    by code_simp
  have h2: "\<forall>ch \<in> set (chapters empty_book). ch = []"
    by (simp add: empty_book_def)
  have h3: "word_tokenize (example_collaborators 100) [] = []"
    by code_simp
  have h4: "encode (example_collaborators 100) m [] = Inr []" for m
    by (simp add: example_collaborators_def)
  have h5: "length (chapters empty_book) \<le> 1"
    by (simp add: empty_book_def)
  from empty_book_statistics [OF h1 h2 h3 h4, of None Map.empty] h5
  have first: "fst (word_counts empty_book) = 0 \<and> word_frequencies empty_book = [] \<and>
        calculate_cost (example_collaborators 100) empty_book GPT4O = Inr 0 \<and>
        snd (write_statistics (example_collaborators 100) empty_book None Map.empty) = Inr ()"
    by auto
  have b1: "BookAnalyzer (example_collaborators 100) ''blank.epub'' = Inr blank_book"
    by code_simp
  have b2: "\<forall>ch \<in> set (chapters blank_book). ch = []"
    by (simp add: blank_book_def)
  have b5: "encode (example_collaborators 100) m
      (replicate (length (chapters blank_book) - 1) CHR '' '') = Inr [32]" for m
    by (simp add: example_collaborators_def blank_book_def)
  then have b6: "\<forall>m. \<exists>toks. encode (example_collaborators 100) m
      (replicate (length (chapters blank_book) - 1) CHR '' '') = Inr toks"
    by blast
  from empty_book_statistics [OF b1 b2 h3 h4, of None Map.empty] b6
  have second: "fst (word_counts blank_book) = 0 \<and> word_frequencies blank_book = [] \<and>
        snd (write_statistics (example_collaborators 100) blank_book None Map.empty) = Inr ()"
    by auto
  from first second h1 b1 h3 h4 h5 b5 show ?thesis by blast
qed


theorem blank_chapters_cost_counterexample:
  "BookAnalyzer (example_collaborators 100) ''blank.epub'' = Inr blank_book \<and>
   concat (chapters blank_book) = [] \<and>
   encode (example_collaborators 100) GPT4O [] = Inr [] \<and>
   calculate_cost (example_collaborators 100) blank_book GPT4O = Inr (1 / 400000) \<and>
   calculate_cost (example_collaborators 100) blank_book GPT4O \<noteq> Inr 0"
proof -
  have "BookAnalyzer (example_collaborators 100) ''blank.epub'' = Inr blank_book"
    by code_simp
  moreover have "concat (chapters blank_book) = []"
    by (simp add: blank_book_def)
  moreover have "encode (example_collaborators 100) GPT4O [] = Inr []"
    by (simp add: example_collaborators_def)
  moreover have c: "calculate_cost (example_collaborators 100) blank_book GPT4O = Inr (1 / 400000)"
    by (simp add: calculate_cost_def CostCalculator_calculate_cost_def token_cost_def
        example_collaborators_def blank_book_def)
  moreover from c have "calculate_cost (example_collaborators 100) blank_book GPT4O \<noteq> Inr 0"
    by simp
  ultimately show ?thesis by blast
qed

text \<open>
  C8, as the code has it: the statistics are computed before the destination is opened, so
  an exception of \<open>token_counts\<close> leaves the file system as it was. After that the file is
  opened and written piece by piece; an exception inside the block leaves at the destination
  what was written up to then, which starts with the heading and the overview, and is
  exactly these when \<open>calculate_cost\<close> fails for the first model.
\<close>

theorem write_statistics_on_failure:
  assumes "snd (write_statistics c a save_path fs) = Inl e"
  shows "((token_counts c a = Inl e \<and> fst (write_statistics c a save_path fs) = fs) \<or>
          (\<exists>tcs rest. token_counts c a = Inr tcs \<and> snd (report_writes c a tcs) = Some e \<and>
             fst (write_statistics c a save_path fs) =
               fs(save_path_or_default c a save_path \<mapsto>
                    concat (overview_writes (fst (word_counts a)) @ rest)))) \<and>
         (\<forall>tcs. token_counts c a = Inr tcs \<and> calculate_cost c a GPT4oMini = Inl e \<longrightarrow>
            fst (write_statistics c a save_path fs) =
              fs(save_path_or_default c a save_path \<mapsto>
                   concat (overview_writes (fst (word_counts a)))))"
proof (intro conjI allI impI)
  show "(token_counts c a = Inl e \<and> fst (write_statistics c a save_path fs) = fs) \<or>
          (\<exists>tcs rest. token_counts c a = Inr tcs \<and> snd (report_writes c a tcs) = Some e \<and>
             fst (write_statistics c a save_path fs) =
               fs(save_path_or_default c a save_path \<mapsto>
                    concat (overview_writes (fst (word_counts a)) @ rest)))"
  proof (cases "token_counts c a")
    case (Inl e')
    with assms show ?thesis by (simp add: write_statistics_eq)
  next
    case (Inr tcs)
    obtain rest where rest: "fst (report_writes c a tcs) = overview_writes (fst (word_counts a)) @ rest"
      using report_writes_overview by blast
    from Inr assms have "snd (report_writes c a tcs) = Some e"
      by (simp add: write_statistics_eq split: option.splits)
    moreover from Inr rest have "fst (write_statistics c a save_path fs) =
               fs(save_path_or_default c a save_path \<mapsto>
                    concat (overview_writes (fst (word_counts a)) @ rest))"
      by (simp add: write_statistics_eq)
    ultimately show ?thesis using Inr by blast
  qed
next
  fix tcs
  assume "token_counts c a = Inr tcs \<and> calculate_cost c a GPT4oMini = Inl e"
  then show "fst (write_statistics c a save_path fs) =
              fs(save_path_or_default c a save_path \<mapsto>
                   concat (overview_writes (fst (word_counts a))))"
    by (simp add: write_statistics_eq report_writes_first_cost_fails)
qed

theorem write_statistics_partial_file_counterexample:
  "snd (write_statistics (example_collaborators 20) scenario_book (Some ''out.md'') Map.empty)
     = Inl EncodingError \<and>
   fst (write_statistics (example_collaborators 20) scenario_book (Some ''out.md'') Map.empty)
     ''out.md''
     = Some (''# Book Statistics'' @ nl @ nl @ ''## Overview'' @ nl @ nl
             @ ''Total Word Count: 8'' @ nl @ nl
             @ ''| Model | Cost |'' @ nl @ ''|-------|------|'' @ nl)"
  by code_simp

theorem write_statistics_on_failure_witness:
  "snd (write_statistics (example_collaborators 20) scenario_book None Map.empty)
     = Inl EncodingError \<and>
   token_counts (example_collaborators 20) scenario_book
     = Inr [(''gpt-4o-mini'', 30, [11, 19]), (''gpt-4o'', 30, [11, 19])] \<and>
   calculate_cost (example_collaborators 20) scenario_book GPT4oMini = Inl EncodingError \<and>
   fst (write_statistics (example_collaborators 20) scenario_book None Map.empty)
     = [''book_stats.md'' \<mapsto> concat (overview_writes 8)]"
proof -
  have h1: "snd (write_statistics (example_collaborators 20) scenario_book None Map.empty)
     = Inl EncodingError"
    by code_simp
  have h2: "token_counts (example_collaborators 20) scenario_book
     = Inr [(''gpt-4o-mini'', 30, [11, 19]), (''gpt-4o'', 30, [11, 19])]"
    by code_simp
  have h3: "calculate_cost (example_collaborators 20) scenario_book GPT4oMini = Inl EncodingError"
    by code_simp
  have p: "save_path_or_default (example_collaborators 20) scenario_book None = ''book_stats.md''"
    by code_simp
  have w: "fst (word_counts scenario_book) = 8"
    by code_simp
  from write_statistics_on_failure [OF h1] h2 h3
  have "fst (write_statistics (example_collaborators 20) scenario_book None Map.empty) =
          Map.empty(save_path_or_default (example_collaborators 20) scenario_book None \<mapsto>
             concat (overview_writes (fst (word_counts scenario_book))))"
    by blast
  with h1 h2 h3 p w show ?thesis by simp
qed

text \<open>
  C9: the rows of the word-frequency table of the tabular report are the first 200 entries
  of the frequency table, in the table's order, one row each and each for another word;
  entries after the 200th have no row. A report that was written to the end closes with the table's three heading lines,
  these rows and an empty line.
\<close>

theorem frequency_table_first_200:
  "frequency_rows 0 (word_frequencies a) = map frequency_row (take 200 (word_frequencies a)) \<and>
   length (frequency_rows 0 (word_frequencies a)) = min 200 (length (word_frequencies a)) \<and>
   distinct (map fst (take 200 (word_frequencies a))) \<and>
   (report_writes c a tcs = (ws, None) \<longrightarrow>
     (\<exists>pre. ws = pre @ [''## Word Frequencies (First 200 Words)'' @ nl @ nl,
                        ''| Word | Frequency |'' @ nl,
                        ''|------|-----------|'' @ nl]
                   @ map frequency_row (take 200 (word_frequencies a)) @ [nl]))"
proof (intro conjI impI)
  show rows: "frequency_rows 0 (word_frequencies a)
      = map frequency_row (take 200 (word_frequencies a))"
    by (simp add: frequency_rows_take)
  then show "length (frequency_rows 0 (word_frequencies a)) = min 200 (length (word_frequencies a))"
    by simp
  have "distinct (map fst (word_frequencies a))"
    by (simp add: word_frequencies_eq most_common_distinct Counter_distinct)
  then have "distinct (take 200 (map fst (word_frequencies a)))"
    by (rule distinct_take)
  then show "distinct (map fst (take 200 (word_frequencies a)))"
    by (simp add: take_map)
  assume "report_writes c a tcs = (ws, None)"
  then obtain pre where "ws = pre @ frequency_table_writes (word_frequencies a)"
    using report_writes_frequency_table by blast
  then show "\<exists>pre. ws = pre @ [''## Word Frequencies (First 200 Words)'' @ nl @ nl,
                        ''| Word | Frequency |'' @ nl,
                        ''|------|-----------|'' @ nl]
                   @ map frequency_row (take 200 (word_frequencies a)) @ [nl]"
    by (simp add: frequency_table_writes_def rows)
qed

theorem frequency_table_first_200_witness:
  "snd (report_writes (example_collaborators 100) scenario_book
          [(''gpt-4o-mini'', 30, [11, 19]), (''gpt-4o'', 30, [11, 19])]) = None \<and>
   (\<exists>pre. fst (report_writes (example_collaborators 100) scenario_book
                 [(''gpt-4o-mini'', 30, [11, 19]), (''gpt-4o'', 30, [11, 19])])
          = pre @ [''## Word Frequencies (First 200 Words)'' @ nl @ nl,
                   ''| Word | Frequency |'' @ nl,
                   ''|------|-----------|'' @ nl]
                @ map frequency_row (take 200 (word_frequencies scenario_book)) @ [nl])"
proof -
  let ?r = "report_writes (example_collaborators 100) scenario_book
          [(''gpt-4o-mini'', 30, [11, 19]), (''gpt-4o'', 30, [11, 19])]"
  have s: "snd ?r = None"
    by code_simp
  then have h: "?r = (fst ?r, None)"
    by (simp add: prod_eq_iff)
  from frequency_table_first_200 [of scenario_book "example_collaborators 100"
      "[(''gpt-4o-mini'', 30, [11, 19]), (''gpt-4o'', 30, [11, 19])]" "fst ?r"] h s
  show ?thesis by blast
qed


end
